theory Spec2Isabelle
  imports Complex_Main
begin

section \<open>Python values\<close>

text \<open>
  The repository computes with Python floats. They are modelled as \<open>real\<close>: the
  arithmetic is exact, rounding, infinities and NaN are outside the model. A call that
  can raise returns a sum, \<open>Inl\<close> carrying the exception.
\<close>

datatype py_exn =
    ValueError string
  | ZeroDivisionError
  | IndexError
  | Exception string

text \<open>\<^verbatim>\<open>d.get(k, default)\<close> on a dictionary.\<close>

definition dict_get :: "('k \<rightharpoonup> 'v) \<Rightarrow> 'k \<Rightarrow> 'v \<Rightarrow> 'v" where
  "dict_get d k dflt = (case d k of None \<Rightarrow> dflt | Some v \<Rightarrow> v)"

text \<open>\<^verbatim>\<open>a / b\<close> on Python floats raises on a zero divisor.\<close>

definition py_div :: "real \<Rightarrow> real \<Rightarrow> py_exn + real" where
  "py_div a b = (if b = 0 then Inl ZeroDivisionError else Inr (a / b))"

section \<open>Signal combiner (src/core/signal\_combiner.py)\<close>

text \<open>
  A strategy signal is a dictionary read with \<^verbatim>\<open>.get\<close>: a missing key is \<open>None\<close>
  here and takes the default of the source there.
\<close>

record strategy_signal =
  sig_strategy :: "string option"
  sig_signal :: "real option"
  sig_confidence :: "real option"
  sig_reason :: "string option"

text \<open>
  The accumulators of the loop of \<^verbatim>\<open>combine_signals\<close>. A reason is kept as the triple
  the source formats into one string (strategy name, reason, confidence); the details
  dictionary maps the strategy name to (signal, confidence, weight).
\<close>

record combine_acc =
  total_weight :: real
  weighted_signal :: real
  total_confidence :: real
  acc_reasons :: "(string \<times> string \<times> real) list"
  acc_details :: "string \<rightharpoonup> (real \<times> real \<times> real)"

record combined_signal =
  final_signal :: real
  confidence :: real
  reasons :: "(string \<times> string \<times> real) list"
  details :: "string \<rightharpoonup> (real \<times> real \<times> real)"

definition strategy_name_of :: "strategy_signal \<Rightarrow> string" where
  "strategy_name_of s = (case sig_strategy s of None \<Rightarrow> ''unknown'' | Some n \<Rightarrow> n)"

definition signal_value_of :: "strategy_signal \<Rightarrow> real" where
  "signal_value_of s = (case sig_signal s of None \<Rightarrow> 0 | Some v \<Rightarrow> v)"

definition confidence_of :: "strategy_signal \<Rightarrow> real" where
  "confidence_of s = (case sig_confidence s of None \<Rightarrow> 0 | Some c \<Rightarrow> c)"

text \<open>The source's default reason is a Chinese literal; an ASCII text stands for it.\<close>

definition reason_of :: "strategy_signal \<Rightarrow> string" where
  "reason_of s = (case sig_reason s of None \<Rightarrow> ''no specific reason'' | Some r \<Rightarrow> r)"

text \<open>
  \<^verbatim>\<open>weights.get(strategy_name, 1.0/len(strategy_signals) if len(strategy_signals) > 0 else 0)\<close>,
  with \<open>n\<close> the length of the whole input list.
\<close>

definition weight_of :: "(string \<rightharpoonup> real) \<Rightarrow> nat \<Rightarrow> strategy_signal \<Rightarrow> real" where
  "weight_of weights n s =
     dict_get weights (strategy_name_of s) (if n > 0 then 1 / real n else 0)"

definition combine_init :: combine_acc where
  "combine_init =
     \<lparr>total_weight = 0, weighted_signal = 0, total_confidence = 0,
      acc_reasons = [], acc_details = Map.empty\<rparr>"

text \<open>One iteration of the \<^verbatim>\<open>for signal in strategy_signals\<close> loop.\<close>

definition combine_step ::
  "(string \<rightharpoonup> real) \<Rightarrow> nat \<Rightarrow> combine_acc \<Rightarrow> strategy_signal \<Rightarrow> combine_acc" where
  "combine_step weights n acc s =
     (let strategy_name = strategy_name_of s;
          signal_value = signal_value_of s;
          conf = confidence_of s;
          weight = weight_of weights n s
      in if conf > 0 then
           \<lparr>total_weight = total_weight acc + conf * weight,
            weighted_signal = weighted_signal acc + signal_value * conf * weight,
            total_confidence = total_confidence acc + conf * weight,
            acc_reasons =
              (if signal_value \<noteq> 0
               then acc_reasons acc @ [(strategy_name, reason_of s, conf)]
               else acc_reasons acc),
            acc_details = (acc_details acc)(strategy_name \<mapsto> (signal_value, conf, weight))\<rparr>
         else acc)"

fun combine_loop ::
  "(string \<rightharpoonup> real) \<Rightarrow> nat \<Rightarrow> combine_acc \<Rightarrow> strategy_signal list \<Rightarrow> combine_acc" where
  "combine_loop weights n acc [] = acc"
| "combine_loop weights n acc (s # ss) = combine_loop weights n (combine_step weights n acc s) ss"

definition combine_signals :: "(string \<rightharpoonup> real) \<Rightarrow> strategy_signal list \<Rightarrow> combined_signal" where
  "combine_signals weights strategy_signals =
     (let acc = combine_loop weights (length strategy_signals) combine_init strategy_signals;
          final = (if total_weight acc > 0 then weighted_signal acc / total_weight acc else 0);
          conf = (if total_weight acc > 0 then total_confidence acc / total_weight acc else 0)
      in \<lparr>final_signal = final,
          confidence = max 0 (min 1 conf),
          reasons = acc_reasons acc,
          details = acc_details acc\<rparr>)"

definition should_trade :: "combined_signal \<Rightarrow> real \<Rightarrow> bool" where
  "should_trade combined threshold =
     (\<bar>final_signal combined\<bar> \<ge> threshold \<and> confidence combined \<ge> 0.2)"

definition determine_order_type :: "real \<Rightarrow> string" where
  "determine_order_type sig = (if sig > 0 then ''buy'' else ''sell'')"

definition signal_factor :: "real \<Rightarrow> real" where
  "signal_factor sig = min 3.0 (max 0.5 (\<bar>sig\<bar> * 2))"

definition calculate_position_size :: "real \<Rightarrow> real \<Rightarrow> real \<Rightarrow> py_exn + real" where
  "calculate_position_size sig account_value current_price =
     (let base_position = account_value * 0.01
      in py_div (base_position * signal_factor sig) current_price)"

section \<open>Market access as seen by one call\<close>

text \<open>
  The exchange (src/data/market\_data.py) is an external collaborator. A value of type
  \<open>market\<close> is one reading of it: what \<^verbatim>\<open>time.time()\<close> returns, what
  \<^verbatim>\<open>get_account_balance\<close> and \<^verbatim>\<open>get_current_price\<close> return or raise, and what
  \<^verbatim>\<open>place_order\<close> returns or raises for given arguments. A method of the risk
  manager takes the reading it works on. \<^verbatim>\<open>execute_order\<close> takes two: the reading
  of its gate, which the submission that follows a passed gate keeps, and the later
  reading from which a rejection recomputes the two constraints it reports.
\<close>

record response =
  resp_code :: "string option"
  resp_msg :: "string option"
  resp_data :: "string option list option"

record market =
  clock :: real
  balance_doge :: "py_exn + real"
  balance_usdt :: "py_exn + real"
  last_price :: "py_exn + real"
  place_order :: "string \<Rightarrow> real \<Rightarrow> string \<Rightarrow> real option \<Rightarrow> py_exn + response"

text \<open>\<^verbatim>\<open>str(e)\<close> of a caught exception.\<close>

fun str_of_exn :: "py_exn \<Rightarrow> string" where
  "str_of_exn (ValueError m) = m"
| "str_of_exn ZeroDivisionError = ''float division by zero''"
| "str_of_exn IndexError = ''list index out of range''"
| "str_of_exn (Exception m) = m"

section \<open>Risk manager (src/core/risk\_manager.py)\<close>

text \<open>
  The fields of the class; \<open>risk_params\<close> is the dictionary that
  \<^verbatim>\<open>config_manager.get_risk_params()\<close> returns, the risk section of the configuration.
\<close>

record RiskManager =
  daily_pnl :: real
  daily_loss :: real
  daily_reset_time :: real
  initial_balance :: real
  last_balance :: real
  max_daily_loss_reached :: bool
  risk_params :: "string \<rightharpoonup> real"

text \<open>
  \<^verbatim>\<open>_get_current_balance\<close>: the account value in USDT; when any of the three queries
  raises, the fallback (the last recorded balance, or 0.0 before there is one).
\<close>

definition current_balance_or :: "real \<Rightarrow> market \<Rightarrow> real" where
  "current_balance_or fallback w =
     (case balance_doge w of
        Inl e \<Rightarrow> fallback
      | Inr doge \<Rightarrow>
          (case balance_usdt w of
             Inl e \<Rightarrow> fallback
           | Inr usdt \<Rightarrow>
               (case last_price w of
                  Inl e \<Rightarrow> fallback
                | Inr p \<Rightarrow> doge * p + usdt)))"

definition get_current_balance :: "RiskManager \<Rightarrow> market \<Rightarrow> real" where
  "get_current_balance rm w = current_balance_or (last_balance rm) w"

definition RiskManager_init :: "(string \<rightharpoonup> real) \<Rightarrow> market \<Rightarrow> RiskManager" where
  "RiskManager_init params w =
     (let b = current_balance_or 0 w
      in \<lparr>daily_pnl = 0, daily_loss = 0, daily_reset_time = clock w,
          initial_balance = b, last_balance = b,
          max_daily_loss_reached = False, risk_params = params\<rparr>)"

definition reset_daily_metrics :: "RiskManager \<Rightarrow> market \<Rightarrow> RiskManager" where
  "reset_daily_metrics rm w =
     (let b = get_current_balance rm w
      in rm\<lparr>daily_pnl := 0, daily_loss := 0, daily_reset_time := clock w,
            initial_balance := b, last_balance := b,
            max_daily_loss_reached := False\<rparr>)"

definition update_metrics :: "RiskManager \<Rightarrow> market \<Rightarrow> RiskManager" where
  "update_metrics rm w =
     (let rm1 = (if clock w - daily_reset_time rm > 86400
                 then reset_daily_metrics rm w else rm);
          current_balance = get_current_balance rm1 w;
          rm2 = rm1\<lparr>daily_pnl := current_balance - initial_balance rm1,
                    daily_loss := max 0 (last_balance rm1 - current_balance),
                    last_balance := current_balance\<rparr>;
          max_daily_loss = dict_get (risk_params rm2) ''max_daily_loss'' 3.0
      in if initial_balance rm2 > 0 then
           (let loss_percent = (daily_loss rm2 / initial_balance rm2) * 100
            in if loss_percent \<ge> max_daily_loss \<and> \<not> max_daily_loss_reached rm2
               then rm2\<lparr>max_daily_loss_reached := True\<rparr>
               else rm2)
         else rm2)"

text \<open>The rolling loss ratio in percent, as \<^verbatim>\<open>should_stop_trading\<close> computes it.\<close>

definition loss_percent_of :: "RiskManager \<Rightarrow> market \<Rightarrow> real" where
  "loss_percent_of rm w =
     ((initial_balance rm - get_current_balance rm w) / initial_balance rm) * 100"

definition should_stop_trading :: "RiskManager \<Rightarrow> market \<Rightarrow> bool \<times> RiskManager" where
  "should_stop_trading rm w =
     (let max_daily_loss = dict_get (risk_params rm) ''max_daily_loss'' 3.0
      in if initial_balance rm \<le> 0 then (False, rm)
         else
           (let should_stop = (loss_percent_of rm w \<ge> max_daily_loss)
            in if should_stop \<and> \<not> max_daily_loss_reached rm
               then (should_stop, rm\<lparr>max_daily_loss_reached := True\<rparr>)
               else if \<not> should_stop
               then (should_stop, rm\<lparr>max_daily_loss_reached := False\<rparr>)
               else (should_stop, rm)))"

definition check_position_size :: "RiskManager \<Rightarrow> market \<Rightarrow> real \<Rightarrow> py_exn + real" where
  "check_position_size rm w proposed_size =
     (let max_position_percent = dict_get (risk_params rm) ''max_position_percent'' 5.0;
          account_value = get_current_balance rm w;
          max_position_usdt = account_value * (max_position_percent / 100)
      in case last_price w of
           Inl e \<Rightarrow> Inl e
         | Inr current_price \<Rightarrow>
             (case py_div max_position_usdt current_price of
                Inl e \<Rightarrow> Inl e
              | Inr max_doge_position \<Rightarrow> Inr (min proposed_size max_doge_position)))"

section \<open>Order executor (src/execution/order\_executor.py)\<close>

text \<open>A ledger entry: the dictionary appended to \<^verbatim>\<open>order_history\<close>.\<close>

record order =
  timestamp :: real
  order_type :: string
  order_size :: real
  order_price :: "real option"
  order_id :: string
  status :: string
  execution_time :: "real option"
  error :: "string option"

record OrderExecutor =
  risk_manager :: RiskManager
  last_order_time :: real
  min_order_interval :: real
  order_history :: "order list"

text \<open>
  The dictionary \<^verbatim>\<open>execute_order\<close> returns, by shape: the rejection with its two
  details \<^verbatim>\<open>time_constraint\<close> and \<^verbatim>\<open>risk_constraint\<close>, the success with the order
  id and the exchange's reply, the failure with the exchange's message and reply, the
  caught exception with its text.
\<close>

datatype exec_result =
    Rejected bool bool
  | Submitted string response
  | Failed string response
  | Errored string

fun success :: "exec_result \<Rightarrow> bool" where
  "success (Submitted oid r) = True"
| "success other = False"

text \<open>An invocation of \<^verbatim>\<open>market_data.place_order\<close>: side, sz, ordType, px.\<close>

type_synonym place_call = "string \<times> real \<times> string \<times> real option"

definition OrderExecutor_init :: "RiskManager \<Rightarrow> OrderExecutor" where
  "OrderExecutor_init rm =
     \<lparr>risk_manager = rm, last_order_time = 0, min_order_interval = 60, order_history = []\<rparr>"

definition can_place_order :: "OrderExecutor \<Rightarrow> market \<Rightarrow> bool \<times> OrderExecutor" where
  "can_place_order ex w =
     (if clock w - last_order_time ex < min_order_interval ex then (False, ex)
      else
        (case should_stop_trading (risk_manager ex) w of
           (stop, rm') \<Rightarrow>
             if stop then (False, ex\<lparr>risk_manager := rm'\<rparr>)
             else (True, ex\<lparr>risk_manager := rm'\<rparr>)))"

text \<open>\<^verbatim>\<open>result.get("data", [{}])[0].get("ordId", "unknown")\<close>.\<close>

definition first_order_id :: "response \<Rightarrow> py_exn + string" where
  "first_order_id result =
     (case resp_data result of
        None \<Rightarrow> Inr ''unknown''
      | Some [] \<Rightarrow> Inl IndexError
      | Some (d # ds) \<Rightarrow> Inr (case d of None \<Rightarrow> ''unknown'' | Some i \<Rightarrow> i))"

text \<open>The three ledger entries of \<^verbatim>\<open>execute_order\<close>.\<close>

definition success_record :: "market \<Rightarrow> string \<Rightarrow> real \<Rightarrow> real \<Rightarrow> string \<Rightarrow> order" where
  "success_record w side adjusted_size current_price oid =
     \<lparr>timestamp = clock w, order_type = side, order_size = adjusted_size,
      order_price = Some current_price, order_id = oid, status = ''success'',
      execution_time = Some (clock w - clock w), error = None\<rparr>"

definition failed_record :: "market \<Rightarrow> string \<Rightarrow> real \<Rightarrow> string \<Rightarrow> order" where
  "failed_record w side adjusted_size error_msg =
     \<lparr>timestamp = clock w, order_type = side, order_size = adjusted_size,
      order_price = None, order_id = ''failed'', status = ''failed'',
      execution_time = None, error = Some error_msg\<rparr>"

definition error_record :: "market \<Rightarrow> string \<Rightarrow> real \<Rightarrow> py_exn \<Rightarrow> order" where
  "error_record w side adjusted_size e =
     \<lparr>timestamp = clock w, order_type = side, order_size = adjusted_size,
      order_price = None, order_id = ''error'', status = ''error'',
      execution_time = None, error = Some (str_of_exn e)\<rparr>"

text \<open>The \<^verbatim>\<open>except Exception as e\<close> handler of \<^verbatim>\<open>execute_order\<close>.\<close>

definition on_exception ::
  "OrderExecutor \<Rightarrow> market \<Rightarrow> string \<Rightarrow> real \<Rightarrow> py_exn \<Rightarrow> exec_result \<times> OrderExecutor" where
  "on_exception ex w side adjusted_size e =
     (Errored (str_of_exn e),
      ex\<lparr>order_history := order_history ex @ [error_record w side adjusted_size e]\<rparr>)"

text \<open>
  The body of the \<^verbatim>\<open>try\<close> block after \<^verbatim>\<open>place_order\<close> has returned \<open>result\<close>:
  the throttle timer is set first, then the reply is read. The source's default message
  is a Chinese literal; an ASCII text stands for it.
\<close>

definition after_reply ::
  "OrderExecutor \<Rightarrow> market \<Rightarrow> string \<Rightarrow> real \<Rightarrow> response \<Rightarrow> exec_result \<times> OrderExecutor" where
  "after_reply ex w side adjusted_size result =
     (let ex1 = ex\<lparr>last_order_time := clock w\<rparr>
      in if resp_code result = Some ''0'' then
           (case first_order_id result of
              Inl e \<Rightarrow> on_exception ex1 w side adjusted_size e
            | Inr oid \<Rightarrow>
                (case last_price w of
                   Inl e \<Rightarrow> on_exception ex1 w side adjusted_size e
                 | Inr current_price \<Rightarrow>
                     (Submitted oid result,
                      ex1\<lparr>order_history := order_history ex1 @
                             [success_record w side adjusted_size current_price oid]\<rparr>)))
         else
           (let error_msg = (case resp_msg result of None \<Rightarrow> ''unknown error'' | Some m \<Rightarrow> m)
            in (Failed error_msg result,
                ex1\<lparr>order_history := order_history ex1 @
                       [failed_record w side adjusted_size error_msg]\<rparr>)))"

text \<open>
  \<^verbatim>\<open>execute_order\<close>: the outcome (an exception that leaves the method, or the returned
  dictionary), the executor afterwards, and the invocations of \<^verbatim>\<open>place_order\<close> made.
  \<open>px\<close> is \<^verbatim>\<open>order_params.get("px")\<close>. \<open>w\<close> is the reading of the gate
  \<^verbatim>\<open>_can_place_order\<close>; when the gate fails, the details of the rejection call
  \<^verbatim>\<open>time.time()\<close> and \<^verbatim>\<open>should_stop_trading()\<close> again, and \<open>wd\<close> is what they read.
\<close>

definition execute_order ::
  "OrderExecutor \<Rightarrow> market \<Rightarrow> market \<Rightarrow> string \<Rightarrow> real \<Rightarrow> real option \<Rightarrow>
   (py_exn + exec_result) \<times> OrderExecutor \<times> place_call list" where
  "execute_order ex w wd side sz px =
     (case can_place_order ex w of
        (False, ex1) \<Rightarrow>
          (case should_stop_trading (risk_manager ex1) wd of
             (risk_constraint, rm') \<Rightarrow>
               (Inr (Rejected (clock wd - last_order_time ex1 < min_order_interval ex1)
                              risk_constraint),
                ex1\<lparr>risk_manager := rm'\<rparr>, []))
      | (True, ex1) \<Rightarrow>
          (case check_position_size (risk_manager ex1) w sz of
             Inl e \<Rightarrow> (Inl e, ex1, [])
           | Inr adjusted_size \<Rightarrow>
               (case place_order w side adjusted_size ''market'' px of
                  Inl e \<Rightarrow>
                    (case on_exception ex1 w side adjusted_size e of
                       (r, ex2) \<Rightarrow> (Inr r, ex2, [(side, adjusted_size, ''market'', px)]))
                | Inr result \<Rightarrow>
                    (case after_reply ex1 w side adjusted_size result of
                       (r, ex2) \<Rightarrow> (Inr r, ex2, [(side, adjusted_size, ''market'', px)])))))"

text \<open>
  The two constraints of the pre-submission gate, on a given reading:
  \<^verbatim>\<open>time.time() - self.last_order_time < self.min_order_interval\<close> and
  \<^verbatim>\<open>self.risk_manager.should_stop_trading()\<close>. The gate evaluates them on its reading,
  the details of a rejection on theirs.
\<close>

definition time_constraint :: "OrderExecutor \<Rightarrow> market \<Rightarrow> bool" where
  "time_constraint ex w = (clock w - last_order_time ex < min_order_interval ex)"

definition risk_constraint :: "OrderExecutor \<Rightarrow> market \<Rightarrow> bool" where
  "risk_constraint ex w = fst (should_stop_trading (risk_manager ex) w)"

text \<open>\<^verbatim>\<open>cancel_order\<close>: the first ledger entry with this id that is still pending.\<close>

fun cancel_scan :: "order list \<Rightarrow> string \<Rightarrow> order list option" where
  "cancel_scan [] oid = None"
| "cancel_scan (x # xs) oid =
     (if order_id x = oid \<and> status x = ''pending''
      then Some (x\<lparr>status := ''cancelled''\<rparr> # xs)
      else map_option ((#) x) (cancel_scan xs oid))"

datatype cancel_result = Cancelled string | NotCancelled

definition cancel_order :: "OrderExecutor \<Rightarrow> string \<Rightarrow> cancel_result \<times> OrderExecutor" where
  "cancel_order ex oid =
     (case cancel_scan (order_history ex) oid of
        Some h \<Rightarrow> (Cancelled oid, ex\<lparr>order_history := h\<rparr>)
      | None \<Rightarrow> (NotCancelled, ex))"

text \<open>
  The executors a session can hold: a fresh one, and what \<^verbatim>\<open>execute_order\<close>,
  \<^verbatim>\<open>cancel_order\<close>, the methods of the shared risk manager and a change of the
  configured interval make of one.
\<close>

inductive reachable :: "OrderExecutor \<Rightarrow> bool" where
  reach_init: "reachable (OrderExecutor_init rm)"
| reach_execute:
    "reachable ex \<Longrightarrow> execute_order ex w wd side sz px = (r, ex', calls) \<Longrightarrow> reachable ex'"
| reach_cancel: "reachable ex \<Longrightarrow> cancel_order ex oid = (c, ex') \<Longrightarrow> reachable ex'"
| reach_risk: "reachable ex \<Longrightarrow> reachable (ex\<lparr>risk_manager := rm'\<rparr>)"
| reach_interval: "reachable ex \<Longrightarrow> reachable (ex\<lparr>min_order_interval := m\<rparr>)"

text \<open>
  A session used in the examples below: an account of 1000 USDT and no DOGE at a price of
  0.1, the clock at 1000 s, and an exchange whose \<^verbatim>\<open>place_order\<close> raises (a timeout);
  the reply of an exchange that accepts an order, and of one that refuses it.
\<close>

definition demo_market :: market where
  "demo_market =
     \<lparr>clock = 1000, balance_doge = Inr 0, balance_usdt = Inr 1000, last_price = Inr 0.1,
      place_order = (\<lambda>side sz ord_type px. Inl (Exception ''timeout''))\<rparr>"

definition accepted_reply :: response where
  "accepted_reply = \<lparr>resp_code = Some ''0'', resp_msg = None, resp_data = Some [Some ''42'']\<rparr>"

definition refused_reply :: response where
  "refused_reply =
     \<lparr>resp_code = Some ''51008'', resp_msg = Some ''insufficient balance'', resp_data = Some []\<rparr>"

definition demo_executor :: OrderExecutor where
  "demo_executor = OrderExecutor_init (RiskManager_init Map.empty demo_market)"

section \<open>Backtester (src/backtesting/backtester.py)\<close>

text \<open>
  \<^verbatim>\<open>run_backtest\<close> replays the prepared series of closing prices. The strategies are
  external signal producers: \<open>producer i\<close> is the list of signals they generate at bar
  \<open>i\<close> (a producer that raises would end the replay with its exception; the producers
  here return). A bar's timestamp is its index.
\<close>

record trade =
  t_timestamp :: nat
  t_type :: string
  t_size :: real
  t_price :: real
  t_cost :: "real option"
  t_revenue :: "real option"
  t_value :: real
  t_commission :: real
  t_reason :: "(string \<times> string \<times> real) list"

text \<open>The variables of the replay loop and the three series it fills.\<close>

record sim_state =
  current_position :: real
  current_cash :: real
  trade_log :: "trade list"
  positions :: "real list"
  cash :: "real list"
  portfolio_value :: "real list"

text \<open>The last three statements of the loop body: the bar's entry of each series.\<close>

definition record_bar :: "nat \<Rightarrow> real \<Rightarrow> sim_state \<Rightarrow> sim_state" where
  "record_bar i close_price st =
     st\<lparr>positions := (positions st)[i := current_position st],
        cash := (cash st)[i := current_cash st],
        portfolio_value :=
          (portfolio_value st)[i := current_cash st + current_position st * close_price]\<rparr>"

definition buy_trade ::
  "nat \<Rightarrow> real \<Rightarrow> real \<Rightarrow> real \<Rightarrow> (string \<times> string \<times> real) list \<Rightarrow> trade" where
  "buy_trade i position_size current_price commission rs =
     (let cost = position_size * current_price * (1 + commission)
      in \<lparr>t_timestamp = i, t_type = ''buy'', t_size = position_size, t_price = current_price,
          t_cost = Some cost, t_revenue = None, t_value = position_size * current_price,
          t_commission = cost * commission, t_reason = rs\<rparr>)"

definition sell_trade ::
  "nat \<Rightarrow> real \<Rightarrow> real \<Rightarrow> real \<Rightarrow> (string \<times> string \<times> real) list \<Rightarrow> trade" where
  "sell_trade i position_size current_price commission rs =
     (let revenue = position_size * current_price * (1 - commission)
      in \<lparr>t_timestamp = i, t_type = ''sell'', t_size = position_size, t_price = current_price,
          t_cost = None, t_revenue = Some revenue, t_value = position_size * current_price,
          t_commission = position_size * current_price * commission, t_reason = rs\<rparr>)"

text \<open>
  The trading part of one iteration, from the combined signal on. At a closing price of
  zero the source divides numpy floats, gets an infinite size and trades nothing; the
  division of the model raises there. The properties below that depend on the prices
  are stated for positive ones.
\<close>

definition trade_on_signal ::
  "real \<Rightarrow> nat \<Rightarrow> real \<Rightarrow> combined_signal \<Rightarrow> sim_state \<Rightarrow> py_exn + sim_state" where
  "trade_on_signal commission i current_price combined st =
     (let order_type = determine_order_type (final_signal combined)
      in case calculate_position_size (final_signal combined)
                (current_cash st + current_position st * current_price) current_price of
           Inl e \<Rightarrow> Inl e
         | Inr position_size \<Rightarrow>
             if order_type = ''buy'' \<and>
                current_cash st \<ge> position_size * current_price * (1 + commission)
             then
               (let cost = position_size * current_price * (1 + commission)
                in Inr (st\<lparr>current_position := current_position st + position_size,
                           current_cash := current_cash st - cost,
                           trade_log := trade_log st @
                             [buy_trade i position_size current_price commission
                                (reasons combined)]\<rparr>))
             else if order_type = ''sell'' \<and> current_position st \<ge> position_size
             then
               (let revenue = position_size * current_price * (1 - commission)
                in Inr (st\<lparr>current_position := current_position st - position_size,
                           current_cash := current_cash st + revenue,
                           trade_log := trade_log st @
                             [sell_trade i position_size current_price commission
                                (reasons combined)]\<rparr>))
             else Inr st)"

text \<open>One iteration of \<^verbatim>\<open>for i in range(50, len(df))\<close>.\<close>

definition backtest_step ::
  "(string \<rightharpoonup> real) \<Rightarrow> real \<Rightarrow> real list \<Rightarrow> (nat \<Rightarrow> strategy_signal list) \<Rightarrow>
   sim_state \<Rightarrow> nat \<Rightarrow> py_exn + sim_state" where
  "backtest_step weights commission closes producer st i =
     (let combined = combine_signals weights (producer i)
      in if should_trade combined 0.3 then
           (case trade_on_signal commission i (closes ! i) combined st of
              Inl e \<Rightarrow> Inl e
            | Inr st' \<Rightarrow> Inr (record_bar i (closes ! i) st'))
         else Inr (record_bar i (closes ! i) st))"

fun backtest_loop ::
  "(string \<rightharpoonup> real) \<Rightarrow> real \<Rightarrow> real list \<Rightarrow> (nat \<Rightarrow> strategy_signal list) \<Rightarrow>
   sim_state \<Rightarrow> nat list \<Rightarrow> py_exn + sim_state" where
  "backtest_loop weights commission closes producer st [] = Inr st"
| "backtest_loop weights commission closes producer st (i # rest) =
     (case backtest_step weights commission closes producer st i of
        Inl e \<Rightarrow> Inl e
      | Inr st' \<Rightarrow> backtest_loop weights commission closes producer st' rest)"

text \<open>The invariant of the replay: cash and position, now and in the series so far.\<close>

definition nonneg_state :: "sim_state \<Rightarrow> bool" where
  "nonneg_state st =
     (0 \<le> current_cash st \<and> 0 \<le> current_position st \<and>
      list_all (\<lambda>x. 0 \<le> x) (cash st) \<and> list_all (\<lambda>x. 0 \<le> x) (positions st))"

text \<open>
  The trade statistics at the end of \<^verbatim>\<open>run_backtest\<close>. \<open>pair_loop\<close> is the
  \<^verbatim>\<open>for i in range(1, len(trade_log))\<close> loop over \<^verbatim>\<open>trade_log[i-1]\<close> and
  \<^verbatim>\<open>trade_log[i]\<close>, with the accumulators \<^verbatim>\<open>winning_trades\<close> and \<^verbatim>\<open>total_pnl\<close>.
\<close>

fun pair_loop :: "trade list \<Rightarrow> nat \<times> real \<Rightarrow> nat \<times> real" where
  "pair_loop (a # b # ts) (winning_trades, total_pnl) =
     (if t_type b = ''sell'' \<and> t_type a = ''buy'' then
        (let buy_price = t_price a;
             sell_price = t_price b;
             pnl = (sell_price - buy_price) / buy_price * 100
         in pair_loop (b # ts)
              (if pnl > 0 then winning_trades + 1 else winning_trades, total_pnl + pnl))
      else pair_loop (b # ts) (winning_trades, total_pnl))"
| "pair_loop ts acc = acc"

definition win_rate :: "trade list \<Rightarrow> real" where
  "win_rate tlog =
     (let num_trades = length tlog
      in if num_trades > 0 then
           (if num_trades > 1
            then (real (fst (pair_loop tlog (0, 0))) / real (num_trades div 2)) * 100
            else 0)
         else 0)"

definition avg_return_per_trade :: "trade list \<Rightarrow> real" where
  "avg_return_per_trade tlog =
     (let num_trades = length tlog
      in if num_trades > 0 then
           (if num_trades > 1
            then snd (pair_loop tlog (0, 0)) / real (num_trades div 2)
            else 0)
         else 0)"

text \<open>
  The result dictionary, without the figures that need floating-point statistics
  (returns, annualised return, Sharpe ratio, drawdown).
\<close>

record report =
  r_initial_capital :: real
  r_final_value :: real
  r_win_rate :: real
  r_avg_return_per_trade :: real
  r_num_trades :: nat
  r_positions :: "real list"
  r_cash :: "real list"
  r_portfolio_value :: "real list"
  r_trade_log :: "trade list"

definition insufficient_history :: py_exn where
  "insufficient_history = ValueError ''insufficient historical data''"

definition initial_state :: "nat \<Rightarrow> real \<Rightarrow> sim_state" where
  "initial_state n initial_capital =
     \<lparr>current_position = 0, current_cash = initial_capital, trade_log = [],
      positions = replicate n 0, cash = replicate n initial_capital,
      portfolio_value = replicate n initial_capital\<rparr>"

definition run_backtest ::
  "(string \<rightharpoonup> real) \<Rightarrow> real \<Rightarrow> real list \<Rightarrow> (nat \<Rightarrow> strategy_signal list) \<Rightarrow>
   real \<Rightarrow> py_exn + report" where
  "run_backtest weights commission closes producer initial_capital =
     (if length closes < 50 then Inl insufficient_history
      else
        (case backtest_loop weights commission closes producer
                (initial_state (length closes) initial_capital) [50..<length closes] of
           Inl e \<Rightarrow> Inl e
         | Inr st \<Rightarrow>
             Inr \<lparr>r_initial_capital = initial_capital,
                  r_final_value = last (portfolio_value st),
                  r_win_rate = win_rate (trade_log st),
                  r_avg_return_per_trade = avg_return_per_trade (trade_log st),
                  r_num_trades = length (trade_log st),
                  r_positions = positions st,
                  r_cash = cash st,
                  r_portfolio_value = portfolio_value st,
                  r_trade_log = trade_log st\<rparr>))"

text \<open>
  Round trips as the specification words them: the adjacent buy-then-sell entries of
  the trade log; the win rate is the share of them (in percent) whose sell price exceeds
  the buy price, the average return the mean of their percentage gains.
\<close>

definition round_trips :: "trade list \<Rightarrow> (trade \<times> trade) list" where
  "round_trips tlog =
     filter (\<lambda>(b, s). t_type b = ''buy'' \<and> t_type s = ''sell'') (zip tlog (tl tlog))"

definition pair_gain :: "trade \<times> trade \<Rightarrow> real" where
  "pair_gain p = (t_price (snd p) - t_price (fst p)) / t_price (fst p) * 100"

definition spec_win_rate :: "trade list \<Rightarrow> real" where
  "spec_win_rate tlog =
     (if round_trips tlog = [] then 0
      else real (length (filter (\<lambda>(b, s). t_price s > t_price b) (round_trips tlog)))
             / real (length (round_trips tlog)) * 100)"

definition spec_avg_return :: "trade list \<Rightarrow> real" where
  "spec_avg_return tlog =
     (if round_trips tlog = [] then 0
      else sum_list (map pair_gain (round_trips tlog)) / real (length (round_trips tlog)))"

section \<open>Properties of the signal combiner\<close>

lemma combine_loop_total_confidence:
  "total_confidence acc = total_weight acc \<Longrightarrow>
   total_confidence (combine_loop weights n acc ss) = total_weight (combine_loop weights n acc ss)"
  by (induction ss arbitrary: acc) (simp_all add: combine_step_def Let_def)

lemma combine_loop_no_confidence:
  "\<forall>s \<in> set ss. confidence_of s = 0 \<Longrightarrow> combine_loop weights n acc ss = acc"
  by (induction ss arbitrary: acc) (simp_all add: combine_step_def Let_def)

lemma combine_loop_total_weight:
  "total_weight (combine_loop weights n acc ss) =
     total_weight acc +
     (\<Sum>s\<leftarrow>ss. if confidence_of s > 0 then confidence_of s * weight_of weights n s else 0)"
  by (induction ss arbitrary: acc) (simp_all add: combine_step_def Let_def)

lemma weighted_sum_nonneg:
  "\<forall>s\<in>set ss. 0 < confidence_of s \<longrightarrow> 0 \<le> weight_of weights n s \<Longrightarrow>
   0 \<le> (\<Sum>s\<leftarrow>ss. if confidence_of s > 0 then confidence_of s * weight_of weights n s else 0)"
  by (induction ss) (auto intro: add_nonneg_nonneg)

lemma weighted_sum_pos:
  "\<forall>s\<in>set ss. 0 < confidence_of s \<longrightarrow> 0 \<le> weight_of weights n s \<Longrightarrow>
   \<exists>s\<in>set ss. 0 < confidence_of s \<and> 0 < weight_of weights n s \<Longrightarrow>
   0 < (\<Sum>s\<leftarrow>ss. if confidence_of s > 0 then confidence_of s * weight_of weights n s else 0)"
proof (induction ss)
  case Nil
  then show ?case by simp
next
  case (Cons a ss)
  have rest: "0 \<le> (\<Sum>s\<leftarrow>ss. if confidence_of s > 0 then confidence_of s * weight_of weights n s else 0)"
    using Cons.prems(1) by (intro weighted_sum_nonneg) simp
  show ?case
  proof (cases "0 < confidence_of a \<and> 0 < weight_of weights n a")
    case True
    then have "0 < confidence_of a * weight_of weights n a" by simp
    from add_pos_nonneg [OF this rest] True show ?thesis by simp
  next
    case False
    with Cons.prems(2) have ex: "\<exists>s\<in>set ss. 0 < confidence_of s \<and> 0 < weight_of weights n s"
      by auto
    have "0 < (\<Sum>s\<leftarrow>ss. if confidence_of s > 0 then confidence_of s * weight_of weights n s else 0)"
      using Cons.IH Cons.prems(1) ex by simp
    moreover have "0 \<le> (if confidence_of a > 0 then confidence_of a * weight_of weights n a else 0)"
      using Cons.prems(1) by simp
    ultimately show ?thesis by simp
  qed
qed

lemma combine_init_balanced: "total_confidence combine_init = total_weight combine_init"
  by (simp add: combine_init_def)

lemma confidence_combine_signals:
  "confidence (combine_signals weights sigs) =
     (if 0 < total_weight (combine_loop weights (length sigs) combine_init sigs) then 1 else 0)"
  using combine_loop_total_confidence [OF combine_init_balanced, of weights "length sigs" sigs]
  by (simp add: combine_signals_def Let_def)

text \<open>
  Claim C5. When every signal's confidence is 0, and more generally whenever the
  accumulated denominator \<^verbatim>\<open>total_weight\<close> is 0, \<^verbatim>\<open>combine_signals\<close> returns
  \<^verbatim>\<open>final_signal = 0\<close> and \<^verbatim>\<open>confidence = 0\<close>.
\<close>

theorem combine_signals_zero_confidence:
  assumes "(\<forall>s\<in>set sigs. confidence_of s = 0) \<or>
           total_weight (combine_loop weights (length sigs) combine_init sigs) = 0"
  shows "final_signal (combine_signals weights sigs) = 0 \<and>
         confidence (combine_signals weights sigs) = 0"
proof -
  have "total_weight (combine_loop weights (length sigs) combine_init sigs) = 0"
    using assms by (auto simp: combine_loop_no_confidence combine_init_def)
  then show ?thesis
    by (simp add: combine_signals_def Let_def)
qed

theorem combine_signals_zero_confidence_witness:
  "final_signal (combine_signals Map.empty
      [\<lparr>sig_strategy = Some ''bollinger'', sig_signal = Some 0.8,
        sig_confidence = Some 0, sig_reason = None\<rparr>,
       \<lparr>sig_strategy = Some ''breakout'', sig_signal = Some (-0.5),
        sig_confidence = None, sig_reason = None\<rparr>]) = 0 \<and>
   confidence (combine_signals Map.empty
      [\<lparr>sig_strategy = Some ''bollinger'', sig_signal = Some 0.8,
        sig_confidence = Some 0, sig_reason = None\<rparr>,
       \<lparr>sig_strategy = Some ''breakout'', sig_signal = Some (-0.5),
        sig_confidence = None, sig_reason = None\<rparr>]) = 0"
  by (rule combine_signals_zero_confidence) (simp add: confidence_of_def)

text \<open>
  Claim C9, as stated, asks for confidence 1 as soon as one signal has a positive
  confidence and a positive weight. A configured negative weight on another confident
  signal makes the denominator non-positive, and the guard \<^verbatim>\<open>if total_weight > 0\<close>
  then returns 0: signals a and b, both with confidence 1, weights 1 and -2.
\<close>

theorem combine_signals_negative_weight_counterexample:
  "confidence_of \<lparr>sig_strategy = Some ''a'', sig_signal = Some 1,
        sig_confidence = Some 1, sig_reason = None\<rparr> > 0 \<and>
   weight_of [''a'' \<mapsto> 1, ''b'' \<mapsto> -2] 2 \<lparr>sig_strategy = Some ''a'', sig_signal = Some 1,
        sig_confidence = Some 1, sig_reason = None\<rparr> > 0 \<and>
   confidence (combine_signals [''a'' \<mapsto> 1, ''b'' \<mapsto> -2]
      [\<lparr>sig_strategy = Some ''a'', sig_signal = Some 1,
        sig_confidence = Some 1, sig_reason = None\<rparr>,
       \<lparr>sig_strategy = Some ''b'', sig_signal = Some 1,
        sig_confidence = Some 1, sig_reason = None\<rparr>]) = 0"
  by (simp add: combine_signals_def combine_step_def combine_init_def confidence_of_def
      weight_of_def strategy_name_of_def signal_value_of_def dict_get_def Let_def)

text \<open>
  Claim C9, amended. The combined confidence is 1 when the accumulated denominator is
  positive and 0 otherwise, so it is never strictly between 0 and 1; it is 1 for every
  input in which at least one signal has confidence > 0 and a strictly positive weight
  and no signal with confidence > 0 has a negative weight.
\<close>

theorem combine_signals_confidence_one:
  "(0 < total_weight (combine_loop weights (length sigs) combine_init sigs) \<longrightarrow>
      confidence (combine_signals weights sigs) = 1) \<and>
   (total_weight (combine_loop weights (length sigs) combine_init sigs) \<le> 0 \<longrightarrow>
      confidence (combine_signals weights sigs) = 0) \<and>
   ((\<exists>s\<in>set sigs. 0 < confidence_of s \<and> 0 < weight_of weights (length sigs) s) \<and>
    (\<forall>s\<in>set sigs. 0 < confidence_of s \<longrightarrow> 0 \<le> weight_of weights (length sigs) s) \<longrightarrow>
      confidence (combine_signals weights sigs) = 1)"
proof -
  have "0 < total_weight (combine_loop weights (length sigs) combine_init sigs)"
    if "\<exists>s\<in>set sigs. 0 < confidence_of s \<and> 0 < weight_of weights (length sigs) s"
      and "\<forall>s\<in>set sigs. 0 < confidence_of s \<longrightarrow> 0 \<le> weight_of weights (length sigs) s"
    using weighted_sum_pos [OF that(2) that(1)]
    by (simp add: combine_loop_total_weight combine_init_def)
  then show ?thesis
    by (auto simp: confidence_combine_signals)
qed

theorem combine_signals_confidence_one_witness:
  "confidence (combine_signals Map.empty
      [\<lparr>sig_strategy = Some ''bollinger'', sig_signal = Some 0.8,
        sig_confidence = Some 0.5, sig_reason = None\<rparr>,
       \<lparr>sig_strategy = Some ''breakout'', sig_signal = Some (-0.5),
        sig_confidence = Some 0.25, sig_reason = None\<rparr>]) = 1"
proof -
  let ?sigs = "[\<lparr>sig_strategy = Some ''bollinger'', sig_signal = Some 0.8,
        sig_confidence = Some 0.5, sig_reason = None\<rparr>,
       \<lparr>sig_strategy = Some ''breakout'', sig_signal = Some (-0.5),
        sig_confidence = Some 0.25, sig_reason = None\<rparr>]"
  have "(\<exists>s\<in>set ?sigs. 0 < confidence_of s \<and> 0 < weight_of Map.empty (length ?sigs) s) \<and>
    (\<forall>s\<in>set ?sigs. 0 < confidence_of s \<longrightarrow> 0 \<le> weight_of Map.empty (length ?sigs) s)"
    by (simp add: confidence_of_def weight_of_def dict_get_def)
  with combine_signals_confidence_one [of Map.empty ?sigs] show ?thesis by blast
qed

text \<open>
  Claim C6. For a non-negative account value and a positive price,
  \<^verbatim>\<open>calculate_position_size\<close> returns a size whose value \<open>size * price\<close> lies between
  0.5% and 3% of the account value (the size between those bounds divided by the price),
  and the size is monotonically non-decreasing in \<open>\<bar>signal\<bar>\<close>.
\<close>

theorem calculate_position_size_bounds:
  assumes "0 \<le> account_value" and "0 < current_price"
  shows "(\<exists>sz. calculate_position_size sig account_value current_price = Inr sz \<and>
            0.005 * account_value \<le> sz * current_price \<and>
            sz * current_price \<le> 0.03 * account_value \<and>
            0.005 * account_value / current_price \<le> sz \<and>
            sz \<le> 0.03 * account_value / current_price) \<and>
         (\<forall>s1 s2. \<bar>s1\<bar> \<le> \<bar>s2\<bar> \<longrightarrow>
            (\<exists>z1 z2. calculate_position_size s1 account_value current_price = Inr z1 \<and>
                     calculate_position_size s2 account_value current_price = Inr z2 \<and>
                     z1 \<le> z2))"
proof -
  have f: "0.5 \<le> signal_factor s \<and> signal_factor s \<le> 3" for s
    by (simp add: signal_factor_def)
  have m: "signal_factor s1 \<le> signal_factor s2" if "\<bar>s1\<bar> \<le> \<bar>s2\<bar>" for s1 s2
    using that by (simp add: signal_factor_def min_def max_def)
  have v: "calculate_position_size s account_value current_price =
             Inr (account_value * 0.01 * signal_factor s / current_price)" for s
    using assms(2) by (simp add: calculate_position_size_def py_div_def Let_def)
  have lo: "0.005 * account_value \<le> account_value * 0.01 * signal_factor sig"
    using f [of sig] assms(1) mult_left_mono [of "1 / 2" "signal_factor sig" "account_value * 0.01"]
    by simp
  have hi: "account_value * 0.01 * signal_factor sig \<le> 0.03 * account_value"
    using f [of sig] assms(1) mult_left_mono [of "signal_factor sig" 3 "account_value * 0.01"]
    by simp
  define sz where "sz = account_value * 0.01 * signal_factor sig / current_price"
  have szp: "sz * current_price = account_value * 0.01 * signal_factor sig"
    using assms(2) by (simp add: sz_def)
  have dlo: "0.005 * account_value / current_price \<le> sz"
    unfolding sz_def using lo assms(2) by (intro divide_right_mono) simp_all
  have dhi: "sz \<le> 0.03 * account_value / current_price"
    unfolding sz_def using hi assms(2) by (intro divide_right_mono) simp_all
  have "calculate_position_size sig account_value current_price = Inr sz"
    by (simp only: v sz_def)
  with szp lo hi dlo dhi
  have part1: "\<exists>sz. calculate_position_size sig account_value current_price = Inr sz \<and>
            0.005 * account_value \<le> sz * current_price \<and>
            sz * current_price \<le> 0.03 * account_value \<and>
            0.005 * account_value / current_price \<le> sz \<and>
            sz \<le> 0.03 * account_value / current_price"
    by (intro exI [of _ sz]) simp
  have part2: "\<exists>z1 z2. calculate_position_size s1 account_value current_price = Inr z1 \<and>
                     calculate_position_size s2 account_value current_price = Inr z2 \<and>
                     z1 \<le> z2" if "\<bar>s1\<bar> \<le> \<bar>s2\<bar>" for s1 s2
    using m [OF that] assms by (simp add: v divide_right_mono mult_left_mono)
  from part1 part2 show ?thesis by blast
qed

theorem calculate_position_size_bounds_witness:
  "(\<exists>sz. calculate_position_size 0.8 1000 0.1 = Inr sz \<and>
         0.005 * 1000 \<le> sz * 0.1 \<and> sz * 0.1 \<le> 0.03 * 1000) \<and>
   (\<exists>z1 z2. calculate_position_size 0.2 1000 0.1 = Inr z1 \<and>
            calculate_position_size (-0.9) 1000 0.1 = Inr z2 \<and> z1 \<le> z2)"
proof -
  have a: "(0::real) \<le> 1000" and p: "(0::real) < 0.1" by simp_all
  note t = calculate_position_size_bounds [OF a p, of "0.8"]
  from t have "\<exists>sz. calculate_position_size 0.8 1000 0.1 = Inr sz \<and>
         0.005 * 1000 \<le> sz * 0.1 \<and> sz * 0.1 \<le> 0.03 * 1000"
    by blast
  moreover from t have "\<bar>0.2::real\<bar> \<le> \<bar>- 0.9\<bar> \<longrightarrow>
     (\<exists>z1 z2. calculate_position_size 0.2 1000 0.1 = Inr z1 \<and>
            calculate_position_size (-0.9) 1000 0.1 = Inr z2 \<and> z1 \<le> z2)"
    by blast
  ultimately show ?thesis by simp
qed

section \<open>Properties of the risk manager\<close>

lemmas demo_defs =
  demo_executor_def demo_market_def accepted_reply_def refused_reply_def
  OrderExecutor_init_def RiskManager_init_def current_balance_or_def

lemmas exec_defs =
  execute_order_def can_place_order_def should_stop_trading_def loss_percent_of_def
  get_current_balance_def current_balance_or_def check_position_size_def py_div_def
  dict_get_def on_exception_def after_reply_def first_order_id_def
  error_record_def failed_record_def success_record_def Let_def

lemma get_current_balance_flag [simp]:
  "get_current_balance (rm\<lparr>max_daily_loss_reached := b\<rparr>) w = get_current_balance rm w"
  by (simp add: get_current_balance_def)

lemma loss_percent_of_flag [simp]:
  "loss_percent_of (rm\<lparr>max_daily_loss_reached := b\<rparr>) w = loss_percent_of rm w"
  by (simp add: loss_percent_of_def)


lemma should_stop_trading_snd:
  "snd (should_stop_trading rm w) =
     (if initial_balance rm \<le> 0 then rm
      else rm\<lparr>max_daily_loss_reached := fst (should_stop_trading rm w)\<rparr>)"
  by (simp add: should_stop_trading_def Let_def)


lemma check_position_size_flag:
  "check_position_size (snd (should_stop_trading rm w)) w sz = check_position_size rm w sz"
  by (cases "last_price w") (simp_all add: should_stop_trading_snd check_position_size_def)

lemma reset_daily_metrics_flag:
  "\<not> max_daily_loss_reached (reset_daily_metrics rm w)"
  by (simp add: reset_daily_metrics_def Let_def)

lemma can_place_order_eq:
  "can_place_order ex w =
     (\<not> time_constraint ex w \<and> \<not> risk_constraint ex w,
      if time_constraint ex w then ex
      else ex\<lparr>risk_manager := snd (should_stop_trading (risk_manager ex) w)\<rparr>)"
  by (simp add: can_place_order_def time_constraint_def risk_constraint_def split: prod.splits)

lemma update_metrics_flag:
  assumes "clock w - daily_reset_time rm \<le> 86400" and "0 < initial_balance rm"
  shows "max_daily_loss_reached (update_metrics rm w) =
           (max_daily_loss_reached rm \<or>
            dict_get (risk_params rm) ''max_daily_loss'' 3
              \<le> max 0 (last_balance rm - get_current_balance rm w) / initial_balance rm * 100)"
  using assms by (auto simp: update_metrics_def Let_def)

text \<open>
  Claim C2. \<^verbatim>\<open>should_stop_trading\<close> returns true exactly when the rolling loss ratio
  reaches the limit (lemma \<open>should_stop_trading_fst\<close>) and stores that answer in
  \<^verbatim>\<open>max_daily_loss_reached\<close>, and a reset clears the flag. \<^verbatim>\<open>update_metrics\<close> sets
  the same flag from \<^verbatim>\<open>daily_loss\<close>, which it computes as the drop since the previous
  observation, not since the start of the window. Starting from 1000 USDT: after
  observing 1100 and then 1060 the flag is set although the rolling ratio is -6%; after
  observing 980 and then 960 the flag is not set although the rolling ratio is 4%, above
  the default limit of 3%.
\<close>

theorem update_metrics_flag_not_rolling:
  "max_daily_loss_reached
     (update_metrics
        (update_metrics (RiskManager_init Map.empty demo_market)
           (demo_market\<lparr>clock := 1300, balance_usdt := Inr 1100\<rparr>))
        (demo_market\<lparr>clock := 1600, balance_usdt := Inr 1060\<rparr>)) \<and>
   loss_percent_of
     (update_metrics
        (update_metrics (RiskManager_init Map.empty demo_market)
           (demo_market\<lparr>clock := 1300, balance_usdt := Inr 1100\<rparr>))
        (demo_market\<lparr>clock := 1600, balance_usdt := Inr 1060\<rparr>))
     (demo_market\<lparr>clock := 1600, balance_usdt := Inr 1060\<rparr>) = - 6 \<and>
   \<not> max_daily_loss_reached
     (update_metrics
        (update_metrics (RiskManager_init Map.empty demo_market)
           (demo_market\<lparr>clock := 1300, balance_usdt := Inr 980\<rparr>))
        (demo_market\<lparr>clock := 1600, balance_usdt := Inr 960\<rparr>)) \<and>
   loss_percent_of
     (update_metrics
        (update_metrics (RiskManager_init Map.empty demo_market)
           (demo_market\<lparr>clock := 1300, balance_usdt := Inr 980\<rparr>))
        (demo_market\<lparr>clock := 1600, balance_usdt := Inr 960\<rparr>))
     (demo_market\<lparr>clock := 1600, balance_usdt := Inr 960\<rparr>) = 4"
  by (simp add: update_metrics_def reset_daily_metrics_def loss_percent_of_def
      get_current_balance_def dict_get_def demo_defs Let_def)

section \<open>Properties of the order executor\<close>




lemma execute_order_place_raises:
  assumes "\<not> time_constraint ex w" and "\<not> risk_constraint ex w"
    and "check_position_size (risk_manager ex) w sz = Inr adjusted"
    and "place_order w side adjusted ''market'' px = Inl e"
  shows "\<exists>ex'. execute_order ex w wd side sz px =
           (Inr (Errored (str_of_exn e)), ex', [(side, adjusted, ''market'', px)]) \<and>
         order_history ex' = order_history ex @ [error_record w side adjusted e] \<and>
         last_order_time ex' = last_order_time ex"
  using assms
  by (simp add: execute_order_def can_place_order_eq check_position_size_flag on_exception_def)

lemma execute_order_place_refused:
  assumes "\<not> time_constraint ex w" and "\<not> risk_constraint ex w"
    and "check_position_size (risk_manager ex) w sz = Inr adjusted"
    and "place_order w side adjusted ''market'' px = Inr result"
    and "resp_code result \<noteq> Some ''0''"
  shows "\<exists>ex' m. execute_order ex w wd side sz px =
           (Inr (Failed m result), ex', [(side, adjusted, ''market'', px)]) \<and>
         order_history ex' = order_history ex @ [failed_record w side adjusted m] \<and>
         last_order_time ex' = clock w"
  using assms
  by (simp add: execute_order_def can_place_order_eq check_position_size_flag after_reply_def Let_def)

lemma time_constraint_after:
  "last_order_time ex' = clock w \<Longrightarrow> min_order_interval ex' = i \<Longrightarrow>
   clock w' - clock w < i \<Longrightarrow> time_constraint ex' w'"
  by (simp add: time_constraint_def)

text \<open>
  Claim C1. When \<^verbatim>\<open>place_order\<close> returns a failure reply, the entry with status
  \<^verbatim>\<open>failed\<close> is appended and \<^verbatim>\<open>last_order_time\<close> is set (lemma
  \<open>execute_order_place_refused\<close>). When it raises, the handler appends the entry with
  status \<^verbatim>\<open>error\<close>, but the assignment to \<^verbatim>\<open>last_order_time\<close> stands after the call
  inside the \<^verbatim>\<open>try\<close> block and is skipped (lemma \<open>execute_order_place_raises\<close>). Two
  submissions 10 seconds apart with the interval of 60 seconds, the first one meeting a
  timeout: the timer is still 0 and the second submission is placed, not rejected. When
  the exchange refuses the first one instead, the timer is set and the second submission
  is rejected by the throttle.
\<close>

theorem execute_order_exception_keeps_timer:
  "fst (execute_order demo_executor demo_market demo_market ''buy'' 100 None) = Inr (Errored ''timeout'') \<and>
   map status (order_history (fst (snd (execute_order demo_executor demo_market demo_market ''buy'' 100 None))))
     = [''error''] \<and>
   last_order_time (fst (snd (execute_order demo_executor demo_market demo_market ''buy'' 100 None))) = 0 \<and>
   min_order_interval (fst (snd (execute_order demo_executor demo_market demo_market ''buy'' 100 None))) = 60 \<and>
   fst (execute_order (fst (snd (execute_order demo_executor demo_market demo_market ''buy'' 100 None)))
          (demo_market\<lparr>clock := 1010, place_order := (\<lambda>side sz ord_type px. Inr accepted_reply)\<rparr>)
          (demo_market\<lparr>clock := 1010, place_order := (\<lambda>side sz ord_type px. Inr accepted_reply)\<rparr>)
          ''buy'' 100 None)
     = Inr (Submitted ''42'' accepted_reply) \<and>
   map status (order_history (fst (snd (execute_order demo_executor
          (demo_market\<lparr>place_order := (\<lambda>side sz ord_type px. Inr refused_reply)\<rparr>)
          (demo_market\<lparr>place_order := (\<lambda>side sz ord_type px. Inr refused_reply)\<rparr>)
          ''buy'' 100 None))))
     = [''failed''] \<and>
   last_order_time (fst (snd (execute_order demo_executor
          (demo_market\<lparr>place_order := (\<lambda>side sz ord_type px. Inr refused_reply)\<rparr>)
          (demo_market\<lparr>place_order := (\<lambda>side sz ord_type px. Inr refused_reply)\<rparr>)
          ''buy'' 100 None))) = 1000 \<and>
   fst (execute_order (fst (snd (execute_order demo_executor
          (demo_market\<lparr>place_order := (\<lambda>side sz ord_type px. Inr refused_reply)\<rparr>)
          (demo_market\<lparr>place_order := (\<lambda>side sz ord_type px. Inr refused_reply)\<rparr>)
          ''buy'' 100 None)))
          (demo_market\<lparr>clock := 1010, place_order := (\<lambda>side sz ord_type px. Inr accepted_reply)\<rparr>)
          (demo_market\<lparr>clock := 1010, place_order := (\<lambda>side sz ord_type px. Inr accepted_reply)\<rparr>)
          ''buy'' 100 None)
     = Inr (Rejected True False)"
  by (simp add: exec_defs demo_defs)

lemma cancel_scan_none:
  "\<forall>x\<in>set h. status x \<noteq> ''pending'' \<Longrightarrow> cancel_scan h oid = None"
  by (induction h) simp_all

lemma on_exception_history:
  "on_exception ex w side adj e = (r, ex') \<Longrightarrow>
   \<exists>x. order_history ex' = order_history ex @ [x] \<and> status x = ''error''"
  by (auto simp: on_exception_def error_record_def)

lemma after_reply_history:
  "after_reply ex w side adj result = (r, ex') \<Longrightarrow>
   \<exists>x. order_history ex' = order_history ex @ [x] \<and>
       (status x = ''success'' \<or> status x = ''failed'' \<or> status x = ''error'')"
  by (auto simp: after_reply_def on_exception_def error_record_def failed_record_def
      success_record_def Let_def split: if_splits sum.splits)

lemma can_place_order_history:
  "order_history (snd (can_place_order ex w)) = order_history ex"
  by (simp add: can_place_order_eq)

lemma execute_order_history:
  assumes "execute_order ex w wd side sz px = (r, ex', calls)"
  shows "order_history ex' = order_history ex \<or>
         (\<exists>x. order_history ex' = order_history ex @ [x] \<and>
           (status x = ''success'' \<or> status x = ''failed'' \<or> status x = ''error''))"
proof -
  obtain ok ex1 where c: "can_place_order ex w = (ok, ex1)" by (cases "can_place_order ex w")
  have h1: "order_history ex1 = order_history ex"
    using can_place_order_history [of ex w] c by simp
  show ?thesis
  proof (cases ok)
    case False
    with assms c h1 show ?thesis
      by (auto simp: execute_order_def split: prod.splits)
  next
    case True
    show ?thesis
    proof (cases "check_position_size (risk_manager ex1) w sz")
      case (Inl e)
      with assms c True h1 show ?thesis by (auto simp: execute_order_def)
    next
      case (Inr adj)
      show ?thesis
      proof (cases "place_order w side adj ''market'' px")
        case (Inl e)
        obtain r2 ex2 where o: "on_exception ex1 w side adj e = (r2, ex2)"
          by (cases "on_exception ex1 w side adj e")
        from assms c True Inr Inl o have "ex' = ex2" by (simp add: execute_order_def)
        with on_exception_history [OF o] h1 show ?thesis by auto
      next
        case (Inr result)
        obtain r2 ex2 where o: "after_reply ex1 w side adj result = (r2, ex2)"
          by (cases "after_reply ex1 w side adj result")
        from assms c True \<open>check_position_size (risk_manager ex1) w sz = Inr adj\<close> Inr o
        have "ex' = ex2" by (simp add: execute_order_def)
        with after_reply_history [OF o] h1 show ?thesis by auto
      qed
    qed
  qed
qed

lemma reachable_statuses:
  "reachable ex \<Longrightarrow>
   \<forall>x\<in>set (order_history ex).
      status x = ''success'' \<or> status x = ''failed'' \<or> status x = ''error''"
proof (induction rule: reachable.induct)
  case (reach_init rm)
  then show ?case by (simp add: OrderExecutor_init_def)
next
  case (reach_execute ex w side sz px r ex' calls)
  from execute_order_history [OF reach_execute.hyps(2)] reach_execute.IH
  show ?case by auto
next
  case (reach_cancel ex oid c ex')
  have "\<forall>x\<in>set (order_history ex). status x \<noteq> ''pending''"
    using reach_cancel.IH by auto
  then have "cancel_scan (order_history ex) oid = None" by (rule cancel_scan_none)
  with reach_cancel.hyps(2) have "ex' = ex" by (simp add: cancel_order_def)
  with reach_cancel.IH show ?case by simp
next
  case (reach_risk ex rm')
  then show ?case by simp
next
  case (reach_interval ex m)
  then show ?case by simp
qed

text \<open>
  Claim C10. \<^verbatim>\<open>cancel_order\<close> never succeeds: every ledger entry of a reachable
  executor has the status \<^verbatim>\<open>success\<close>, \<^verbatim>\<open>failed\<close> or \<^verbatim>\<open>error\<close>, never
  \<^verbatim>\<open>pending\<close>, so for every order id the call returns the failure result and leaves
  the executor, and with it the ledger, as it was.
\<close>

theorem cancel_order_never_succeeds:
  assumes "reachable ex"
  shows "cancel_order ex oid = (NotCancelled, ex) \<and>
         (\<forall>x\<in>set (order_history ex).
            status x = ''success'' \<or> status x = ''failed'' \<or> status x = ''error'')"
proof -
  have s: "\<forall>x\<in>set (order_history ex).
            status x = ''success'' \<or> status x = ''failed'' \<or> status x = ''error''"
    using assms by (rule reachable_statuses)
  then have "\<forall>x\<in>set (order_history ex). status x \<noteq> ''pending''" by auto
  then have "cancel_scan (order_history ex) oid = None" by (rule cancel_scan_none)
  with s show ?thesis by (simp add: cancel_order_def)
qed

theorem cancel_order_never_succeeds_witness:
  "map order_id (order_history (fst (snd (execute_order demo_executor
      (demo_market\<lparr>place_order := (\<lambda>side sz ord_type px. Inr accepted_reply)\<rparr>)
      (demo_market\<lparr>place_order := (\<lambda>side sz ord_type px. Inr accepted_reply)\<rparr>)
      ''buy'' 100 None)))) = [''42''] \<and>
   fst (cancel_order (fst (snd (execute_order demo_executor
      (demo_market\<lparr>place_order := (\<lambda>side sz ord_type px. Inr accepted_reply)\<rparr>)
      (demo_market\<lparr>place_order := (\<lambda>side sz ord_type px. Inr accepted_reply)\<rparr>)
      ''buy'' 100 None))) ''42'') = NotCancelled"
proof -
  let ?w = "demo_market\<lparr>place_order := (\<lambda>side sz ord_type px. Inr accepted_reply)\<rparr>"
  let ?ex = "fst (snd (execute_order demo_executor ?w ?w ''buy'' 100 None))"
  have "reachable demo_executor"
    unfolding demo_executor_def by (rule reach_init)
  moreover have "execute_order demo_executor ?w ?w ''buy'' 100 None =
      (fst (execute_order demo_executor ?w ?w ''buy'' 100 None), ?ex,
       snd (snd (execute_order demo_executor ?w ?w ''buy'' 100 None)))"
    by (simp only: prod.collapse)
  ultimately have "reachable ?ex"
    by (rule reach_execute)
  from cancel_order_never_succeeds [OF this, of "''42''"]
  have "fst (cancel_order ?ex ''42'') = NotCancelled" by simp
  moreover have "map order_id (order_history ?ex) = [''42'']"
    by (simp add: exec_defs demo_defs)
  ultimately show ?thesis by simp
qed

section \<open>Properties of the backtester\<close>

lemmas combine_defs =
  combine_signals_def combine_step_def combine_init_def confidence_of_def weight_of_def
  strategy_name_of_def signal_value_of_def reason_of_def dict_get_def

lemmas backtest_defs =
  run_backtest_def backtest_step_def trade_on_signal_def record_bar_def initial_state_def
  should_trade_def determine_order_type_def calculate_position_size_def signal_factor_def
  py_div_def buy_trade_def sell_trade_def Let_def

lemma calculate_position_size_raises:
  "calculate_position_size s a p = Inl e \<Longrightarrow> e = ZeroDivisionError"
  by (auto simp: calculate_position_size_def py_div_def Let_def split: if_splits)

lemma trade_on_signal_raises:
  "trade_on_signal c i p combined st = Inl e \<Longrightarrow> e = ZeroDivisionError"
  by (auto simp: trade_on_signal_def Let_def split: sum.splits if_splits
      dest: calculate_position_size_raises)

lemma backtest_step_raises:
  "backtest_step weights c closes producer st i = Inl e \<Longrightarrow> e = ZeroDivisionError"
  by (auto simp: backtest_step_def Let_def split: sum.splits if_splits
      dest: trade_on_signal_raises)

lemma backtest_loop_raises:
  "backtest_loop weights c closes producer st idxs = Inl e \<Longrightarrow> e = ZeroDivisionError"
  by (induction idxs arbitrary: st)
    (auto split: sum.splits dest: backtest_step_raises)

text \<open>
  Claim C8. With fewer than 50 bars \<^verbatim>\<open>run_backtest\<close> raises the insufficient-history
  error, whatever the producers, weights and capital are: no bar is simulated and no report
  is produced. With 50 bars or more it does not raise this error.
\<close>

theorem run_backtest_insufficient_history:
  "(length closes < 50 \<longrightarrow>
      run_backtest weights commission closes producer initial_capital
        = Inl insufficient_history) \<and>
   (50 \<le> length closes \<longrightarrow>
      run_backtest weights commission closes producer initial_capital
        \<noteq> Inl insufficient_history)"
  by (auto simp: run_backtest_def insufficient_history_def split: sum.splits
      dest: backtest_loop_raises)

theorem run_backtest_insufficient_history_witness:
  "run_backtest Map.empty 0.001 (replicate 49 1) (\<lambda>i. []) 1000 = Inl insufficient_history \<and>
   run_backtest Map.empty 0.001 (replicate 50 1) (\<lambda>i. []) 1000 \<noteq> Inl insufficient_history"
  using run_backtest_insufficient_history [of "replicate 49 1" Map.empty "0.001" "\<lambda>i. []" 1000]
    run_backtest_insufficient_history [of "replicate 50 1" Map.empty "0.001" "\<lambda>i. []" 1000]
  by simp

lemma signal_factor_pos: "0 < signal_factor s"
  by (simp add: signal_factor_def)

lemma position_size_nonneg:
  assumes "0 \<le> a" and "0 < p"
  shows "\<exists>sz. calculate_position_size s a p = Inr sz \<and> 0 \<le> sz"
  using assms signal_factor_pos [of s]
  by (simp add: calculate_position_size_def py_div_def Let_def)

lemma trade_on_signal_cases:
  assumes "trade_on_signal c i p combined st = Inr st'"
  shows "st' = st \<or>
         (\<exists>sz. calculate_position_size (final_signal combined)
                  (current_cash st + current_position st * p) p = Inr sz \<and>
               ((determine_order_type (final_signal combined) = ''buy'' \<and>
                 sz * p * (1 + c) \<le> current_cash st \<and>
                 st' = st\<lparr>current_position := current_position st + sz,
                           current_cash := current_cash st - sz * p * (1 + c),
                           trade_log := trade_log st @ [buy_trade i sz p c (reasons combined)]\<rparr>) \<or>
                (determine_order_type (final_signal combined) = ''sell'' \<and>
                 sz \<le> current_position st \<and>
                 st' = st\<lparr>current_position := current_position st - sz,
                           current_cash := current_cash st + sz * p * (1 - c),
                           trade_log := trade_log st @ [sell_trade i sz p c (reasons combined)]\<rparr>)))"
  using assms
  by (auto simp: trade_on_signal_def Let_def split: sum.splits if_splits)


lemma list_all_update:
  "list_all P xs \<Longrightarrow> P v \<Longrightarrow> list_all P (xs[i := v])"
  by (induction xs arbitrary: i) (auto split: nat.splits)

lemma record_bar_nonneg:
  "nonneg_state st \<Longrightarrow> nonneg_state (record_bar i p st)"
  by (simp add: nonneg_state_def record_bar_def list_all_update)

lemma trade_on_signal_nonneg:
  assumes "nonneg_state st" and "0 < p" and "c \<le> 1"
  shows "\<exists>st'. trade_on_signal c i p combined st = Inr st' \<and> nonneg_state st'"
proof -
  have a: "0 \<le> current_cash st + current_position st * p"
    using assms(1,2) by (simp add: nonneg_state_def)
  from position_size_nonneg [OF a assms(2), of "final_signal combined"]
  obtain sz where sz: "calculate_position_size (final_signal combined)
      (current_cash st + current_position st * p) p = Inr sz" and nn: "0 \<le> sz"
    by blast
  have rev: "0 \<le> sz * p * (1 - c)"
    using nn assms(2,3) by simp
  show ?thesis
    using sz nn rev assms(1)
    by (simp add: trade_on_signal_def nonneg_state_def Let_def)
qed

lemma backtest_step_nonneg:
  assumes "nonneg_state st" and "0 < closes ! i" and "c \<le> 1"
  shows "\<exists>st'. backtest_step weights c closes producer st i = Inr st' \<and> nonneg_state st'"
proof (cases "should_trade (combine_signals weights (producer i)) 0.3")
  case True
  from trade_on_signal_nonneg [OF assms, of i "combine_signals weights (producer i)"]
  obtain st1 where "trade_on_signal c i (closes ! i) (combine_signals weights (producer i)) st = Inr st1"
    and "nonneg_state st1" by blast
  with True show ?thesis
    by (simp add: backtest_step_def Let_def record_bar_nonneg)
next
  case False
  with assms(1) show ?thesis
    by (simp add: backtest_step_def Let_def record_bar_nonneg)
qed

lemma backtest_loop_nonneg:
  assumes "nonneg_state st" and "\<forall>i\<in>set idxs. 0 < closes ! i" and "c \<le> 1"
  shows "\<exists>st'. backtest_loop weights c closes producer st idxs = Inr st' \<and> nonneg_state st'"
  using assms
proof (induction idxs arbitrary: st)
  case Nil
  then show ?case by simp
next
  case (Cons i idxs)
  from Cons.prems have "0 < closes ! i" by simp
  from backtest_step_nonneg [OF Cons.prems(1) this Cons.prems(3), of weights producer]
  obtain st1 where s: "backtest_step weights c closes producer st i = Inr st1"
    and n: "nonneg_state st1" by blast
  from Cons.IH [OF n] Cons.prems obtain st2 where
    "backtest_loop weights c closes producer st1 idxs = Inr st2" and "nonneg_state st2"
    by auto
  with s show ?case by simp
qed

lemma backtest_step_cases:
  assumes "backtest_step weights c closes producer st i = Inr st'"
  shows "(trade_log st' = trade_log st \<and> current_cash st' = current_cash st \<and>
          current_position st' = current_position st) \<or>
         (\<exists>t. trade_log st' = trade_log st @ [t] \<and> t_type t = ''buy'' \<and>
              t_price t = closes ! i \<and>
              should_trade (combine_signals weights (producer i)) 0.3 \<and>
              determine_order_type (final_signal (combine_signals weights (producer i))) = ''buy'' \<and>
              calculate_position_size (final_signal (combine_signals weights (producer i)))
                (current_cash st + current_position st * closes ! i) (closes ! i) = Inr (t_size t) \<and>
              t_size t * t_price t * (1 + c) \<le> current_cash st \<and>
              current_cash st' = current_cash st - t_size t * t_price t * (1 + c) \<and>
              current_position st' = current_position st + t_size t) \<or>
         (\<exists>t. trade_log st' = trade_log st @ [t] \<and> t_type t = ''sell'' \<and>
              t_price t = closes ! i \<and>
              should_trade (combine_signals weights (producer i)) 0.3 \<and>
              determine_order_type (final_signal (combine_signals weights (producer i))) = ''sell'' \<and>
              calculate_position_size (final_signal (combine_signals weights (producer i)))
                (current_cash st + current_position st * closes ! i) (closes ! i) = Inr (t_size t) \<and>
              t_size t \<le> current_position st \<and>
              current_cash st' = current_cash st + t_size t * t_price t * (1 - c) \<and>
              current_position st' = current_position st - t_size t)"
proof (cases "should_trade (combine_signals weights (producer i)) 0.3")
  case False
  with assms show ?thesis
    by (auto simp: backtest_step_def Let_def record_bar_def)
next
  case True
  with assms obtain st1 where
    t: "trade_on_signal c i (closes ! i) (combine_signals weights (producer i)) st = Inr st1"
    and r: "st' = record_bar i (closes ! i) st1"
    by (auto simp: backtest_step_def Let_def split: sum.splits)
  from trade_on_signal_cases [OF t] True show ?thesis
    unfolding r
    by (elim disjE exE conjE)
      (simp_all add: record_bar_def buy_trade_def sell_trade_def Let_def)
qed

text \<open>
  Claim C4. In one bar of the replay a buy is executed only when the cash covers
  \<open>size * price * (1 + commission)\<close> and a sell only when the position covers the size,
  the trade having the direction and the size that the combined signal determines;
  otherwise cash, position and trade log are unchanged and the bar still ends without an
  error. Consequently, for positive closing prices and a commission rate of at most 1,
  from a non-negative initial capital and a zero position the replay returns a report
  whose cash and position series are non-negative at every bar.
\<close>

theorem backtest_cash_position_nonneg:
  "(backtest_step weights commission closes producer st i = Inr st' \<longrightarrow>
      (trade_log st' = trade_log st \<and> current_cash st' = current_cash st \<and>
       current_position st' = current_position st) \<or>
      (\<exists>t. trade_log st' = trade_log st @ [t] \<and> t_type t = ''buy'' \<and>
           t_price t = closes ! i \<and>
           should_trade (combine_signals weights (producer i)) 0.3 \<and>
           determine_order_type (final_signal (combine_signals weights (producer i))) = ''buy'' \<and>
           calculate_position_size (final_signal (combine_signals weights (producer i)))
             (current_cash st + current_position st * closes ! i) (closes ! i) = Inr (t_size t) \<and>
           t_size t * t_price t * (1 + commission) \<le> current_cash st \<and>
           current_cash st' = current_cash st - t_size t * t_price t * (1 + commission) \<and>
           current_position st' = current_position st + t_size t) \<or>
      (\<exists>t. trade_log st' = trade_log st @ [t] \<and> t_type t = ''sell'' \<and>
           t_price t = closes ! i \<and>
           should_trade (combine_signals weights (producer i)) 0.3 \<and>
           determine_order_type (final_signal (combine_signals weights (producer i))) = ''sell'' \<and>
           calculate_position_size (final_signal (combine_signals weights (producer i)))
             (current_cash st + current_position st * closes ! i) (closes ! i) = Inr (t_size t) \<and>
           t_size t \<le> current_position st \<and>
           current_cash st' = current_cash st + t_size t * t_price t * (1 - commission) \<and>
           current_position st' = current_position st - t_size t)) \<and>
   (50 \<le> length closes \<and> 0 \<le> initial_capital \<and> (\<forall>p\<in>set closes. 0 < p) \<and>
    commission \<le> 1 \<longrightarrow>
      (\<exists>r. run_backtest weights commission closes producer initial_capital = Inr r \<and>
           list_all (\<lambda>x. 0 \<le> x) (r_cash r) \<and>
           list_all (\<lambda>x. 0 \<le> x) (r_positions r)))"
proof (intro conjI impI)
  assume "backtest_step weights commission closes producer st i = Inr st'"
  then show "(trade_log st' = trade_log st \<and> current_cash st' = current_cash st \<and>
         current_position st' = current_position st) \<or>
        (\<exists>t. trade_log st' = trade_log st @ [t] \<and> t_type t = ''buy'' \<and>
             t_price t = closes ! i \<and>
             should_trade (combine_signals weights (producer i)) 0.3 \<and>
             determine_order_type (final_signal (combine_signals weights (producer i))) = ''buy'' \<and>
             calculate_position_size (final_signal (combine_signals weights (producer i)))
               (current_cash st + current_position st * closes ! i) (closes ! i) = Inr (t_size t) \<and>
             t_size t * t_price t * (1 + commission) \<le> current_cash st \<and>
             current_cash st' = current_cash st - t_size t * t_price t * (1 + commission) \<and>
             current_position st' = current_position st + t_size t) \<or>
        (\<exists>t. trade_log st' = trade_log st @ [t] \<and> t_type t = ''sell'' \<and>
             t_price t = closes ! i \<and>
             should_trade (combine_signals weights (producer i)) 0.3 \<and>
             determine_order_type (final_signal (combine_signals weights (producer i))) = ''sell'' \<and>
             calculate_position_size (final_signal (combine_signals weights (producer i)))
               (current_cash st + current_position st * closes ! i) (closes ! i) = Inr (t_size t) \<and>
             t_size t \<le> current_position st \<and>
             current_cash st' = current_cash st + t_size t * t_price t * (1 - commission) \<and>
             current_position st' = current_position st - t_size t)"
    by (rule backtest_step_cases)
next
  assume h: "50 \<le> length closes \<and> 0 \<le> initial_capital \<and> (\<forall>p\<in>set closes. 0 < p) \<and>
    commission \<le> 1"
  have i0: "nonneg_state (initial_state (length closes) initial_capital)"
    using h by (simp add: nonneg_state_def initial_state_def list_all_iff)
  have pr: "\<forall>i\<in>set [50..<length closes]. 0 < closes ! i"
    using h by simp
  from backtest_loop_nonneg [OF i0 pr, of commission weights producer] h
  obtain st1 where
    l: "backtest_loop weights commission closes producer
          (initial_state (length closes) initial_capital) [50..<length closes] = Inr st1"
    and n: "nonneg_state st1" by blast
  from h l n show "\<exists>r. run_backtest weights commission closes producer initial_capital = Inr r \<and>
           list_all (\<lambda>x. 0 \<le> x) (r_cash r) \<and>
           list_all (\<lambda>x. 0 \<le> x) (r_positions r)"
    by (simp add: run_backtest_def nonneg_state_def)
qed

theorem backtest_cash_position_nonneg_witness:
  "(\<exists>t. trade_log (projr (backtest_step Map.empty 0.001 (replicate 50 1 @ [2])
            (\<lambda>i. [\<lparr>sig_strategy = Some ''trend'', sig_signal = Some 1,
                    sig_confidence = Some 1, sig_reason = None\<rparr>])
            (initial_state 51 1000) 50)) = [t] \<and> t_type t = ''buy'' \<and> t_size t = 10 \<and>
        t_size t * t_price t * (1 + 0.001) \<le> 1000) \<and>
   (\<exists>r. run_backtest Map.empty 0.001 (replicate 50 1 @ [2])
            (\<lambda>i. [\<lparr>sig_strategy = Some ''trend'', sig_signal = Some 1,
                    sig_confidence = Some 1, sig_reason = None\<rparr>]) 1000 = Inr r \<and>
        list_all (\<lambda>x. 0 \<le> x) (r_cash r) \<and> list_all (\<lambda>x. 0 \<le> x) (r_positions r))"
proof -
  let ?closes = "replicate 50 1 @ [2::real]"
  let ?producer = "\<lambda>i::nat. [\<lparr>sig_strategy = Some ''trend'', sig_signal = Some 1,
                    sig_confidence = Some 1, sig_reason = None\<rparr>]"
  let ?st = "initial_state 51 1000"
  let ?st' = "projr (backtest_step Map.empty 0.001 ?closes ?producer ?st 50)"
  note t = backtest_cash_position_nonneg
    [of Map.empty "0.001" ?closes ?producer ?st 50 ?st' 1000]
  have s: "backtest_step Map.empty 0.001 ?closes ?producer ?st 50 = Inr ?st'"
    by (simp add: backtest_defs combine_defs nth_append)
  have l: "trade_log ?st' = [buy_trade 50 10 2 0.001 [(''trend'', ''no specific reason'', 1)]]"
    by (simp add: backtest_defs combine_defs nth_append)
  have h: "50 \<le> length ?closes \<and> (0::real) \<le> 1000 \<and> (\<forall>p\<in>set ?closes. 0 < p) \<and>
           (0.001::real) \<le> 1"
    by simp
  note d = t [THEN conjunct1, rule_format, OF s]
  from d have "\<exists>t. trade_log ?st' = [t] \<and> t_type t = ''buy'' \<and> t_size t = 10 \<and>
        t_size t * t_price t * (1 + 0.001) \<le> 1000"
    unfolding l by (auto simp: initial_state_def buy_trade_def Let_def)
  moreover from t h have "\<exists>r. run_backtest Map.empty 0.001 ?closes ?producer 1000 = Inr r \<and>
        list_all (\<lambda>x. 0 \<le> x) (r_cash r) \<and> list_all (\<lambda>x. 0 \<le> x) (r_positions r)"
    by blast
  ultimately show ?thesis by blast
qed

lemma pair_loop_round_trips:
  "\<forall>t\<in>set tlog. 0 < t_price t \<Longrightarrow>
   pair_loop tlog (w, p) =
     (w + length (filter (\<lambda>(b, s). t_price s > t_price b) (round_trips tlog)),
      p + sum_list (map pair_gain (round_trips tlog)))"
proof (induction tlog "(w, p)" arbitrary: w p rule: pair_loop.induct)
  case (1 a b ts winning_trades total_pnl)
  have pa: "0 < t_price a" using "1.prems" by simp
  have g: "(0 < (t_price b - t_price a) / t_price a * 100) = (t_price a < t_price b)"
    using pa by (simp add: zero_less_divide_iff)
  show ?case
  proof (cases "t_type b = ''sell'' \<and> t_type a = ''buy''")
    case True
    with "1.hyps"(1) [OF True refl refl refl] "1.prems" g show ?thesis
      by (auto simp: round_trips_def pair_gain_def Let_def)
  next
    case False
    with "1.hyps"(2) [OF False] "1.prems" show ?thesis
      by (auto simp: round_trips_def)
  qed
qed (simp_all add: round_trips_def)

lemma trade_statistics_alternating:
  assumes "\<forall>t\<in>set tlog. 0 < t_price t"
    and "length (round_trips tlog) = length tlog div 2"
  shows "win_rate tlog = spec_win_rate tlog \<and> avg_return_per_trade tlog = spec_avg_return tlog"
  using assms(2)
  by (auto simp: win_rate_def avg_return_per_trade_def spec_win_rate_def spec_avg_return_def
      pair_loop_round_trips [OF assms(1)] Let_def)


text \<open>
  Claim C7. The loop of the statistics visits exactly the adjacent buy-then-sell pairs
  (lemma \<open>pair_loop_round_trips\<close>), but both figures are divided by
  \<^verbatim>\<open>num_trades // 2\<close>, not by the number of those pairs; they agree with the share of
  winning pairs and the mean gain of the pairs only when the two counts coincide (lemma
  \<open>trade_statistics_alternating\<close>). A replay of 54 bars with three bullish bars at price
  1 and a bearish bar at price 2 trades buy, buy, buy, sell: the one round trip gains
  100%, and the report says a win rate of 50 and an average return of 50.
\<close>

theorem win_rate_not_pair_fraction:
  "(case run_backtest Map.empty 0.001 (replicate 50 1 @ [1, 1, 1, 2])
           (\<lambda>i. [\<lparr>sig_strategy = Some ''trend'',
                   sig_signal = Some (if i < 53 then 1 else - 1),
                   sig_confidence = Some 1, sig_reason = None\<rparr>]) 1000 of
      Inl e \<Rightarrow> False
    | Inr r \<Rightarrow>
        map t_type (r_trade_log r) = [''buy'', ''buy'', ''buy'', ''sell''] \<and>
        map t_price (r_trade_log r) = [1, 1, 1, 2] \<and>
        length (round_trips (r_trade_log r)) = 1 \<and>
        r_win_rate r = 50 \<and> spec_win_rate (r_trade_log r) = 100 \<and>
        r_avg_return_per_trade r = 50 \<and> spec_avg_return (r_trade_log r) = 100)"
  by (simp add: backtest_defs combine_defs nth_append win_rate_def avg_return_per_trade_def
      spec_win_rate_def spec_avg_return_def round_trips_def pair_gain_def)

end
